theory Spec2Isabelle
  imports Complex_Main "HOL-Library.Sublist"
begin

section \<open>Python strings\<close>

text \<open>
  A Python \<open>str\<close> is modelled as a HOL \<open>string\<close>. The character tables below are
  the ASCII part of Python's tables: \<open>str.isspace\<close> holds for the codes 9 to 13 and
  28 to 32, \<open>str.lower\<close> and \<open>str.upper\<close> exchange \<open>A..Z\<close> and \<open>a..z\<close>.
  Every keyword and every separator the server compares with is ASCII.
\<close>

definition whitespace :: "char list" where
  "whitespace =
     [CHR 0x09, CHR 0x0A, CHR 0x0B, CHR 0x0C, CHR 0x0D,
      CHR 0x1C, CHR 0x1D, CHR 0x1E, CHR 0x1F, CHR 0x20]"

definition isspace :: "char \<Rightarrow> bool" where
  "isspace c = (c \<in> set whitespace)"

definition upper_letters :: string where
  "upper_letters = ''ABCDEFGHIJKLMNOPQRSTUVWXYZ''"

definition lower_letters :: string where
  "lower_letters = ''abcdefghijklmnopqrstuvwxyz''"

definition lower_char :: "char \<Rightarrow> char" where
  "lower_char c =
     (case map_of (zip upper_letters lower_letters) c of Some d \<Rightarrow> d | None \<Rightarrow> c)"

definition upper_char :: "char \<Rightarrow> char" where
  "upper_char c =
     (case map_of (zip lower_letters upper_letters) c of Some d \<Rightarrow> d | None \<Rightarrow> c)"

text \<open>\<open>s.lower()\<close>\<close>

definition lower :: "string \<Rightarrow> string" where
  "lower s = map lower_char s"

text \<open>\<open>s.capitalize()\<close>: the first character in upper case, the others in lower case.\<close>

definition capitalize :: "string \<Rightarrow> string" where
  "capitalize s = (case s of [] \<Rightarrow> [] | c # cs \<Rightarrow> upper_char c # lower cs)"

text \<open>\<open>s.replace(a, b)\<close> for one-character \<open>a\<close> and \<open>b\<close>.\<close>

definition replace :: "char \<Rightarrow> char \<Rightarrow> string \<Rightarrow> string" where
  "replace a b s = map (\<lambda>c. if c = a then b else c) s"

text \<open>
  \<open>s.split()\<close> with no separator: the maximal runs of non-whitespace characters, in
  order; \<open>w\<close> is the word read so far.
\<close>

fun split_from :: "string \<Rightarrow> string \<Rightarrow> string list" where
  "split_from w [] = (if w = [] then [] else [w])"
| "split_from w (c # cs) =
     (if isspace c then (if w = [] then split_from [] cs else w # split_from [] cs)
      else split_from (w @ [c]) cs)"

definition split :: "string \<Rightarrow> string list" where
  "split s = split_from [] s"

text \<open>\<open>sep.join(ws)\<close>\<close>

fun join :: "string \<Rightarrow> string list \<Rightarrow> string" where
  "join sep [] = []"
| "join sep [w] = w"
| "join sep (w # v # ws) = w @ sep @ join sep (v # ws)"

text \<open>\<open>s.strip()\<close>: leading and trailing whitespace removed.\<close>

definition strip :: "string \<Rightarrow> string" where
  "strip s = rev (dropWhile isspace (rev (dropWhile isspace s)))"

text \<open>\<open>sub in s\<close>: \<open>sub\<close> occurs in \<open>s\<close> as a block of consecutive characters.\<close>

fun contains :: "string \<Rightarrow> string \<Rightarrow> bool" where
  "contains sub [] = (sub = [])"
| "contains sub (c # cs) = (prefix sub (c # cs) \<or> contains sub cs)"

section \<open>JSON values\<close>

text \<open>
  The values that \<open>request.get_json()\<close> returns and that \<open>jsonify\<close> serialises: Python's
  \<open>None\<close>, \<open>bool\<close>, \<open>int\<close>, \<open>float\<close>, \<open>str\<close>, \<open>list\<close> and \<open>dict\<close> with string keys.
  A dict is the list of its items in insertion order, its keys distinct.
\<close>

datatype json =
    JNull
  | JBool bool
  | JInt int
  | JFloat real
  | is_JStr: JStr string
  | is_JArr: JArr "json list"
  | is_JObj: JObj (items: "(string \<times> json) list")

text \<open>The keys of a dict, in order; a value that is not a dict has none.\<close>

definition keys :: "json \<Rightarrow> string list" where
  "keys j = (case j of JObj kvs \<Rightarrow> map fst kvs | _ \<Rightarrow> [])"

text \<open>The value stored under a key of a dict.\<close>

definition value_at :: "json \<Rightarrow> string \<Rightarrow> json option" where
  "value_at j k = (case j of JObj kvs \<Rightarrow> map_of kvs k | _ \<Rightarrow> None)"

section \<open>The requirement templates of \<open>generate_fallback_schema\<close>\<close>

definition jstrs :: "string list \<Rightarrow> json" where
  "jstrs xs = JArr (map JStr xs)"

definition size_kb :: "int \<Rightarrow> int \<Rightarrow> json" where
  "size_kb lo hi = JObj [(''min'', JInt lo), (''max'', JInt hi)]"

definition document :: "string \<Rightarrow> (string \<times> json) list \<Rightarrow> json" where
  "document t r = JObj [(''type'', JStr t), (''requirements'', JObj r)]"

definition banking_requirements :: "json list" where
  "banking_requirements =
     [document ''photograph''
        [(''format'', jstrs [''JPG'', ''JPEG'']),
         (''size_kb'', size_kb 20 50),
         (''dimensions'', JStr ''200x230 pixels''),
         (''color'', JStr ''color''),
         (''background'', JStr ''light''),
         (''notes'', jstrs [''Recent colored photograph'', ''Passport size'',
                            ''Clear face visibility''])],
      document ''signature''
        [(''format'', jstrs [''JPG'', ''JPEG'']),
         (''size_kb'', size_kb 10 20),
         (''dimensions'', JStr ''140x60 pixels''),
         (''background'', JStr ''white''),
         (''notes'', jstrs [''Clear signature in black ink'', ''Sign on white paper''])],
      document ''thumb_impression''
        [(''format'', jstrs [''JPG'', ''JPEG'']),
         (''size_kb'', size_kb 10 20),
         (''dimensions'', JStr ''240x240 pixels''),
         (''background'', JStr ''white''),
         (''notes'', jstrs [''Left thumb impression'',
                            ''Clear impression on white paper''])]]"

definition ssc_requirements :: "json list" where
  "ssc_requirements =
     [document ''photograph''
        [(''format'', jstrs [''JPEG'']),
         (''size_kb'', size_kb 4 40),
         (''dimensions'', JStr ''3.5x4.5 cm''),
         (''color'', JStr ''color''),
         (''background'', JStr ''light''),
         (''notes'', jstrs [''Recent colored photograph'', ''Passport size''])],
      document ''signature''
        [(''format'', jstrs [''JPEG'']),
         (''size_kb'', size_kb 1 12),
         (''dimensions'', JStr ''4x2 cm''),
         (''background'', JStr ''white''),
         (''notes'', jstrs [''Clear signature in black ink''])]]"

definition medical_engineering_requirements :: "json list" where
  "medical_engineering_requirements =
     [document ''photograph''
        [(''format'', jstrs [''JPG'', ''JPEG'']),
         (''size_kb'', size_kb 10 200),
         (''dimensions'', JStr ''Passport size''),
         (''color'', JStr ''color''),
         (''background'', JStr ''white''),
         (''notes'', jstrs [''Recent photograph'', ''Face should be clearly visible'',
                            ''No sunglasses or hat''])],
      document ''signature''
        [(''format'', jstrs [''JPG'', ''JPEG'']),
         (''size_kb'', size_kb 4 30),
         (''background'', JStr ''white''),
         (''notes'', jstrs [''Clear signature in blue or black ink''])]]"

definition upsc_requirements :: "json list" where
  "upsc_requirements =
     [document ''photograph''
        [(''format'', jstrs [''JPG'', ''JPEG'']),
         (''size_kb'', size_kb 3 50),
         (''dimensions'', JStr ''5x7 cm''),
         (''color'', JStr ''color''),
         (''background'', JStr ''white''),
         (''notes'', jstrs [''Recent photograph'', ''Professional attire preferred'',
                            ''Clear face visibility''])],
      document ''signature''
        [(''format'', jstrs [''JPG'', ''JPEG'']),
         (''size_kb'', size_kb 1 10),
         (''dimensions'', JStr ''4x2 cm''),
         (''background'', JStr ''white''),
         (''notes'', jstrs [''Signature in black ink'', ''Sign on white paper''])]]"

definition generic_requirements :: "json list" where
  "generic_requirements =
     [document ''photograph''
        [(''format'', jstrs [''JPG'', ''JPEG'', ''PNG'']),
         (''size_kb'', size_kb 10 100),
         (''dimensions'', JStr ''Passport size''),
         (''color'', JStr ''color''),
         (''notes'', jstrs [''Recent photograph'', ''Clear face visibility''])],
      document ''signature''
        [(''format'', jstrs [''JPG'', ''JPEG'', ''PNG'']),
         (''size_kb'', size_kb 5 50),
         (''background'', JStr ''white''),
         (''notes'', jstrs [''Clear signature''])]]"

section \<open>\<open>generate_fallback_schema\<close>\<close>

text \<open>
  \<open>any(keyword in lower_name for keyword in keywords)\<close>
\<close>

definition any_keyword_in :: "string list \<Rightarrow> string \<Rightarrow> bool" where
  "any_keyword_in keywords lower_name = list_ex (\<lambda>keyword. contains keyword lower_name) keywords"

text \<open>
  The function reads the clock once, for \<open>extractedAt\<close>; the text that
  \<open>datetime.now().isoformat()\<close> returns is the argument \<open>now\<close>.
\<close>

definition generate_fallback_schema :: "string \<Rightarrow> string \<Rightarrow> json" where
  "generate_fallback_schema now exam_name =
     (let normalized_name =
            join '' '' (map capitalize
              (split (replace (CHR ''_'') (CHR '' '') (replace (CHR ''-'') (CHR '' '') exam_name))));
          lower_name = lower exam_name;
          requirements =
            (if any_keyword_in [''ibps'', ''bank'', ''sbi'', ''rbi''] lower_name
               then banking_requirements
             else if contains ''ssc'' lower_name
               then ssc_requirements
             else if any_keyword_in [''neet'', ''jee'', ''gate''] lower_name
               then medical_engineering_requirements
             else if any_keyword_in [''upsc'', ''civil'', ''ias'', ''ips''] lower_name
               then upsc_requirements
             else generic_requirements)
      in JObj [(''exam'', JStr normalized_name),
               (''documents'', JArr requirements),
               (''extractedFrom'', JStr ''Intelligent Fallback System''),
               (''extractedAt'', JStr now)])"

section \<open>Exceptions\<close>

text \<open>
  The exceptions of the two programs, all of them subclasses of \<open>Exception\<close>:
  \<open>AttributeError\<close> with its message, \<open>UnboundLocalError\<close>, and whatever a library call
  (\<open>request.get_json\<close>, \<open>print\<close>, \<open>main_export\<close>) raises, with the text of \<open>str(e)\<close>.
\<close>

datatype exn =
    AttributeError string
  | UnboundLocalError
  | LibraryError string

definition quoted :: "string \<Rightarrow> string" where
  "quoted s = [CHR 0x27] @ s @ [CHR 0x27]"

fun str_exn :: "exn \<Rightarrow> string" where
  "str_exn (AttributeError m) = m"
| "str_exn UnboundLocalError =
     ''cannot access local variable '' @ quoted ''data'' @
     '' where it is not associated with a value''"
| "str_exn (LibraryError m) = m"

fun type_name :: "json \<Rightarrow> string" where
  "type_name JNull = ''NoneType''"
| "type_name (JBool _) = ''bool''"
| "type_name (JInt _) = ''int''"
| "type_name (JFloat _) = ''float''"
| "type_name (JStr _) = ''str''"
| "type_name (JArr _) = ''list''"
| "type_name (JObj _) = ''dict''"

definition no_attribute :: "json \<Rightarrow> string \<Rightarrow> exn" where
  "no_attribute v a =
     AttributeError (quoted (type_name v) @ '' object has no attribute '' @ quoted a)"

text \<open>\<open>d.get(k, default)\<close>: only a dict has the method.\<close>

definition py_get :: "json \<Rightarrow> string \<Rightarrow> json \<Rightarrow> exn + json" where
  "py_get d k dflt =
     (case d of
        JObj kvs \<Rightarrow> Inr (case map_of kvs k of Some v \<Rightarrow> v | None \<Rightarrow> dflt)
      | _ \<Rightarrow> Inl (no_attribute d ''get''))"

text \<open>\<open>v.strip()\<close>: only a str has the method.\<close>

definition py_strip :: "json \<Rightarrow> exn + string" where
  "py_strip v = (case v of JStr s \<Rightarrow> Inr (strip s) | _ \<Rightarrow> Inl (no_attribute v ''strip''))"

section \<open>The request handler \<open>generate_schema\<close>\<close>

text \<open>
  What a request meets outside the handler: the result of \<open>request.get_json()\<close> (the parsed
  body, or the exception the call raises), the text of \<open>datetime.now().isoformat()\<close>, and
  for each line whether \<open>print\<close> writes it (\<open>None\<close>) or raises.
\<close>

record env =
  get_json :: "exn + json"
  isoformat_now :: string
  print_exn :: "string \<Rightarrow> exn option"

text \<open>A response: the HTTP status and the body given to \<open>jsonify\<close>.\<close>

record response =
  status :: nat
  body :: json

text \<open>
  \<open>schema['exam']\<close> inside an f-string. The schema is the dict that
  \<open>generate_fallback_schema\<close> built, which holds a str under \<open>exam\<close>
  (lemma \<open>exam_of_generate_fallback_schema\<close>); no other case arises.
\<close>

definition exam_of :: "json \<Rightarrow> string" where
  "exam_of schema = (case value_at schema ''exam'' of Some (JStr s) \<Rightarrow> s | _ \<Rightarrow> [])"

definition exam_name_required :: response where
  "exam_name_required =
     \<lparr>status = 400,
      body = JObj [(''success'', JBool False), (''error'', JStr ''Exam name is required'')]\<rparr>"

definition schema_generated :: "json \<Rightarrow> response" where
  "schema_generated schema =
     \<lparr>status = 200,
      body = JObj
        [(''success'', JBool True),
         (''schema'', schema),
         (''message'', JStr (''Generated schema for '' @ exam_of schema)),
         (''note'', JStr (''Using intelligent pattern matching - '' @
                          ''real web extraction available via Node.js version''))]\<rparr>"

text \<open>The body of the \<open>try\<close> statement; \<open>Inl\<close> is an exception that leaves it.\<close>

definition try_body :: "env \<Rightarrow> exn + response" where
  "try_body env =
     (case get_json env of
        Inl e \<Rightarrow> Inl e
      | Inr data \<Rightarrow>
          (case py_get data ''examName'' (JStr []) of
             Inl e \<Rightarrow> Inl e
           | Inr v \<Rightarrow>
               (case py_strip v of
                  Inl e \<Rightarrow> Inl e
                | Inr exam_name \<Rightarrow>
                    if exam_name = [] then Inr exam_name_required
                    else
                      (case print_exn env (''Generating schema for: '' @ exam_name) of
                         Some e \<Rightarrow> Inl e
                       | None \<Rightarrow>
                           (let schema = generate_fallback_schema (isoformat_now env) exam_name
                            in case print_exn env (''Generated schema for '' @ exam_of schema) of
                                 Some e \<Rightarrow> Inl e
                               | None \<Rightarrow> Inr (schema_generated schema))))))"

definition basic_fallback :: "json \<Rightarrow> string \<Rightarrow> json" where
  "basic_fallback exam now =
     JObj [(''exam'', exam),
           (''documents'', JArr
              [document ''photograph''
                 [(''format'', jstrs [''JPG'', ''JPEG'']),
                  (''size_kb'', size_kb 10 100),
                  (''dimensions'', JStr ''Passport size''),
                  (''color'', JStr ''color''),
                  (''notes'', jstrs [''Recent photograph''])]]),
           (''extractedFrom'', JStr ''Basic Fallback''),
           (''extractedAt'', JStr now)]"

definition fallback_generated :: "json \<Rightarrow> response" where
  "fallback_generated fallback =
     \<lparr>status = 200,
      body = JObj
        [(''success'', JBool True),
         (''schema'', fallback),
         (''message'', JStr ''Generated basic fallback schema''),
         (''warning'', JStr ''Error occurred during generation'')]\<rparr>"

text \<open>
  The \<open>except Exception as e\<close> branch. The local \<open>data\<close> is bound only when
  \<open>request.get_json()\<close> returned; reading it unbound raises \<open>UnboundLocalError\<close>.
\<close>

definition except_branch :: "env \<Rightarrow> exn \<Rightarrow> exn + response" where
  "except_branch env e =
     (case print_exn env (''Error generating schema: '' @ str_exn e) of
        Some e' \<Rightarrow> Inl e'
      | None \<Rightarrow>
          (case get_json env of
             Inl _ \<Rightarrow> Inl UnboundLocalError
           | Inr data \<Rightarrow>
               (case py_get data ''examName'' (JStr ''Unknown Exam'') of
                  Inl e' \<Rightarrow> Inl e'
                | Inr exam \<Rightarrow>
                    Inr (fallback_generated (basic_fallback exam (isoformat_now env))))))"

text \<open>The handler; \<open>Inl\<close> is an exception that leaves it.\<close>

definition generate_schema :: "env \<Rightarrow> exn + response" where
  "generate_schema env =
     (case try_body env of Inr r \<Rightarrow> Inr r | Inl e \<Rightarrow> except_branch env e)"

section \<open>\<open>health_check\<close>\<close>

definition health_check :: "string \<Rightarrow> response" where
  "health_check now =
     \<lparr>status = 200,
      body = JObj [(''status'', JStr ''OK''),
                   (''timestamp'', JStr now),
                   (''message'', JStr ''Schema Extraction Server is running'')]\<rparr>"

section \<open>The export script\<close>

text \<open>
  The files on disk are a map from paths to contents. The script's file-producing steps
  are recorded in the order they happen: the call of \<open>main_export\<close> (with the model name,
  the output directory and the task) and each \<open>Path.touch()\<close>. Console output is not
  part of the model.
\<close>

type_synonym filesystem = "string \<rightharpoonup> string"

datatype action =
    Main_export string string string
  | Touch string

record world =
  files :: filesystem
  actions :: "action list"

text \<open>\<open>Path.touch()\<close>: an empty file when there is none, no change to an existing one.\<close>

definition touch :: "string \<Rightarrow> filesystem \<Rightarrow> filesystem" where
  "touch p fs = (case fs p of None \<Rightarrow> fs(p \<mapsto> []) | Some _ \<Rightarrow> fs)"

definition MODELS_DIR :: string where
  "MODELS_DIR = ''public/models''"

text \<open>\<open>dir / name\<close>\<close>

definition path_join :: "string \<Rightarrow> string \<Rightarrow> string" where
  "path_join dir name = dir @ ''/'' @ name"

text \<open>
  The library's exporter is a parameter: from the model name, the output directory, the
  task and the files on disk it gives the files it leaves and, when it raises, the
  exception. An \<open>ImportError\<close> of the import inside the \<open>try\<close> is such an exception.
\<close>

type_synonym exporter = "string \<Rightarrow> string \<Rightarrow> string \<Rightarrow> filesystem \<Rightarrow> exn option \<times> filesystem"

definition export_distilbert :: "exporter \<Rightarrow> world \<Rightarrow> world" where
  "export_distilbert main_export w =
     (let model_name = ''distilbert-base-uncased'';
          output_path = path_join MODELS_DIR ''distilbert.onnx'';
          call = Main_export model_name (path_join MODELS_DIR ''distilbert'') ''feature-extraction''
      in case main_export model_name (path_join MODELS_DIR ''distilbert'') ''feature-extraction''
                (files w) of
           (None, fs) \<Rightarrow> \<lparr>files = fs, actions = actions w @ [call]\<rparr>
         | (Some e, fs) \<Rightarrow>
             \<lparr>files = touch output_path fs, actions = actions w @ [call, Touch output_path]\<rparr>)"

definition create_layoutlm_placeholder :: "world \<Rightarrow> world" where
  "create_layoutlm_placeholder w =
     (let output_path = path_join MODELS_DIR ''layoutlm.onnx''
      in \<lparr>files = touch output_path (files w), actions = actions w @ [Touch output_path]\<rparr>)"

text \<open>The \<open>__main__\<close> block.\<close>

definition main :: "exporter \<Rightarrow> world \<Rightarrow> world" where
  "main main_export w = create_layoutlm_placeholder (export_distilbert main_export w)"

text \<open>
  The whole script: without the libraries it exits with code 1 before any file is
  produced; otherwise it runs the \<open>__main__\<close> block and ends with code 0.
\<close>

definition script :: "bool \<Rightarrow> exporter \<Rightarrow> world \<Rightarrow> nat \<times> world" where
  "script libraries_found main_export w =
     (if libraries_found then (0, main main_export w) else (1, w))"

section \<open>The specification's wording\<close>

subsection \<open>Template selection as a decision table\<close>

text \<open>
  The four keyword checks in their order, each with its template; the first row one of
  whose keywords occurs in the lowercased name decides, and the generic template is taken
  when no row matches.
\<close>

definition template_rules :: "(string list \<times> json list) list" where
  "template_rules =
     [([''ibps'', ''bank'', ''sbi'', ''rbi''], banking_requirements),
      ([''ssc''], ssc_requirements),
      ([''neet'', ''jee'', ''gate''], medical_engineering_requirements),
      ([''upsc'', ''civil'', ''ias'', ''ips''], upsc_requirements)]"

definition select_template :: "string \<Rightarrow> json list" where
  "select_template lower_name =
     (case find (\<lambda>(keywords, template). list_ex (\<lambda>k. sublist k lower_name) keywords)
             template_rules of
        Some (keywords, template) \<Rightarrow> template
      | None \<Rightarrow> generic_requirements)"

definition templates :: "json list list" where
  "templates =
     [banking_requirements, ssc_requirements, medical_engineering_requirements,
      upsc_requirements, generic_requirements]"

subsection \<open>The shape of a requirement template\<close>

definition is_document :: "json \<Rightarrow> bool" where
  "is_document d =
     (keys d = [''type'', ''requirements''] \<and>
      (case value_at d ''type'' of Some (JStr _) \<Rightarrow> True | _ \<Rightarrow> False) \<and>
      (case value_at d ''requirements'' of Some (JObj _) \<Rightarrow> True | _ \<Rightarrow> False))"

definition is_requirement_template :: "json \<Rightarrow> bool" where
  "is_requirement_template j =
     (keys j = [''exam'', ''documents'', ''extractedFrom'', ''extractedAt''] \<and>
      (case value_at j ''exam'' of Some (JStr _) \<Rightarrow> True | _ \<Rightarrow> False) \<and>
      (case value_at j ''documents'' of
         Some (JArr ds) \<Rightarrow> list_all is_document ds
       | _ \<Rightarrow> False) \<and>
      (case value_at j ''extractedFrom'' of Some (JStr _) \<Rightarrow> True | _ \<Rightarrow> False) \<and>
      (case value_at j ''extractedAt'' of Some (JStr _) \<Rightarrow> True | _ \<Rightarrow> False))"

subsection \<open>Normalization of the exam name\<close>




subsection \<open>The lines the handler prints on the way to a generated schema\<close>


subsection \<open>The export script's paths and its call of the exporter\<close>





section \<open>Sample requests and sample runs\<close>









section \<open>Facts about the string operations\<close>

lemma contains_sublist: "contains sub s \<longleftrightarrow> sublist sub s"
  by (induction s) (auto simp: sublist_Cons_right)

lemma any_keyword_in_sublist:
  "any_keyword_in keywords l \<longleftrightarrow> list_ex (\<lambda>k. sublist k l) keywords"
  by (simp add: any_keyword_in_def contains_sublist)









section \<open>\<open>generate_fallback_schema\<close>\<close>


lemma distinct_templates: "distinct templates"
  by (simp add: templates_def banking_requirements_def ssc_requirements_def
      medical_engineering_requirements_def upsc_requirements_def generic_requirements_def
      document_def jstrs_def size_kb_def)

lemma select_template_in_templates: "select_template l \<in> set templates"
  by (simp add: select_template_def template_rules_def templates_def)

lemma lower_example: "lower ''SSC Bank Clerk'' = ''ssc bank clerk''"
  by (simp add: lower_def lower_char_def upper_letters_def lower_letters_def)

lemma select_template_example: "select_template ''ssc bank clerk'' = banking_requirements"
  by (simp add: select_template_def template_rules_def contains_sublist [symmetric])

text \<open>
  C1: for every exam name, the documents of the schema that \<open>generate_fallback_schema\<close>
  returns are chosen by the decision table on the lowercased name: banking (ibps, bank,
  sbi, rbi), then SSC (ssc), then medical and engineering (neet, jee, gate), then UPSC
  (upsc, civil, ias, ips), the first matching row deciding and the generic template
  otherwise; the result is one of five templates, which are pairwise different.
\<close>

theorem generate_fallback_schema_selects_template:
  "value_at (generate_fallback_schema now exam_name) ''documents'' =
     Some (JArr (select_template (lower exam_name))) \<and>
   select_template (lower exam_name) \<in> set templates \<and>
   distinct templates \<and> length templates = 5"
proof -
  have "value_at (generate_fallback_schema now exam_name) ''documents'' =
      Some (JArr (select_template (lower exam_name)))"
    by (simp add: generate_fallback_schema_def value_at_def select_template_def
        template_rules_def any_keyword_in_sublist contains_sublist Let_def)
  moreover have "length templates = 5"
    by (simp add: templates_def)
  ultimately show ?thesis
    by (simp add: select_template_in_templates distinct_templates)
qed

theorem generate_fallback_schema_selects_template_witness:
  "value_at (generate_fallback_schema ''2026-11-03T10:00:00'' ''SSC Bank Clerk'') ''documents'' =
     Some (JArr banking_requirements)"
  using generate_fallback_schema_selects_template
    [of "''2026-11-03T10:00:00''" "''SSC Bank Clerk''"]
  by (simp add: lower_example select_template_example)

lemma is_document_document: "is_document (document t r)"
  by (simp add: is_document_def document_def keys_def value_at_def)

lemma documents_banking: "list_all is_document banking_requirements"
  by (simp add: banking_requirements_def is_document_document)

lemma documents_ssc: "list_all is_document ssc_requirements"
  by (simp add: ssc_requirements_def is_document_document)

lemma documents_medical_engineering: "list_all is_document medical_engineering_requirements"
  by (simp add: medical_engineering_requirements_def is_document_document)

lemma documents_upsc: "list_all is_document upsc_requirements"
  by (simp add: upsc_requirements_def is_document_document)

lemma documents_generic: "list_all is_document generic_requirements"
  by (simp add: generic_requirements_def is_document_document)

text \<open>
  C6: every schema that \<open>generate_fallback_schema\<close> returns is a dict with exactly the
  keys exam, documents, extractedFrom and extractedAt, in which exam is a string,
  documents a list of dicts with exactly the keys type and requirements, extractedFrom
  the tag of the fallback system and extractedAt the time read from the clock.
\<close>

theorem generate_fallback_schema_fields:
  "is_requirement_template (generate_fallback_schema now exam_name) \<and>
   keys (generate_fallback_schema now exam_name) =
     [''exam'', ''documents'', ''extractedFrom'', ''extractedAt''] \<and>
   value_at (generate_fallback_schema now exam_name) ''extractedFrom'' =
     Some (JStr ''Intelligent Fallback System'') \<and>
   value_at (generate_fallback_schema now exam_name) ''extractedAt'' = Some (JStr now)"
  by (simp add: is_requirement_template_def generate_fallback_schema_def keys_def value_at_def
      Let_def documents_banking documents_ssc documents_medical_engineering documents_upsc
      documents_generic)

theorem generate_fallback_schema_fields_witness:
  "is_requirement_template (generate_fallback_schema ''2026-11-03T10:00:00'' ''NEET UG'') \<and>
   value_at (generate_fallback_schema ''2026-11-03T10:00:00'' ''NEET UG'') ''extractedAt'' =
     Some (JStr ''2026-11-03T10:00:00'')"
  using generate_fallback_schema_fields [of "''2026-11-03T10:00:00''" "''NEET UG''"]
  by simp



section \<open>The request handler\<close>






text \<open>
  Outside the claims: a body that is not a dict, and a body that could not be read, make
  the \<open>except\<close> branch itself raise; a name that is not a string yields the basic
  fallback.
\<close>

lemma generate_schema_body_not_dict:
  assumes "get_json env = Inr d" and "\<not> is_JObj d"
    and "print_exn env (''Error generating schema: '' @ str_exn (no_attribute d ''get'')) = None"
  shows "generate_schema env = Inl (no_attribute d ''get'')"
  using assms
  by (cases d) (simp_all add: generate_schema_def try_body_def except_branch_def py_get_def)

lemma generate_schema_body_unread:
  assumes "get_json env = Inl e"
    and "print_exn env (''Error generating schema: '' @ str_exn e) = None"
  shows "generate_schema env = Inl UnboundLocalError"
  using assms by (simp add: generate_schema_def try_body_def except_branch_def)

lemma generate_schema_name_not_str:
  assumes "get_json env = Inr (JObj kvs)" and "map_of kvs ''examName'' = Some v"
    and "\<not> is_JStr v"
    and "print_exn env (''Error generating schema: '' @ str_exn (no_attribute v ''strip'')) = None"
  shows "generate_schema env =
     Inr (fallback_generated (basic_fallback v (isoformat_now env)))"
  using assms
  by (cases v)
    (simp_all add: generate_schema_def try_body_def except_branch_def py_get_def py_strip_def)











section \<open>The health check\<close>

text \<open>
  C5, as the endpoint has it: \<open>health_check\<close> returns status 200 and a body with exactly
  the keys status, timestamp and message; status and message are fixed texts, timestamp
  is the time read from the clock, and the bodies of two calls are equal exactly when
  the two clock readings are.
\<close>

theorem health_check_fields:
  "status (health_check now) = 200 \<and>
   keys (body (health_check now)) = [''status'', ''timestamp'', ''message''] \<and>
   value_at (body (health_check now)) ''status'' = Some (JStr ''OK'') \<and>
   value_at (body (health_check now)) ''message'' =
     Some (JStr ''Schema Extraction Server is running'') \<and>
   value_at (body (health_check now)) ''timestamp'' = Some (JStr now) \<and>
   (body (health_check now) = body (health_check now') \<longleftrightarrow> now = now')"
  by (auto simp: health_check_def keys_def value_at_def)

theorem health_check_fields_witness:
  "value_at (body (health_check ''2026-11-03T10:00:00'')) ''timestamp'' =
     Some (JStr ''2026-11-03T10:00:00'') \<and>
   body (health_check ''2026-11-03T10:00:00'') = body (health_check ''2026-11-03T10:00:00'')"
  using health_check_fields [of "''2026-11-03T10:00:00''" "''2026-11-03T10:00:00''"]
  by simp

text \<open>
  The claim C5 as written fails: two calls one second apart return different bodies.
\<close>

theorem health_check_counterexample:
  "body (health_check ''2026-11-03T10:00:00'') \<noteq> body (health_check ''2026-11-03T10:00:01'')"
  by (simp add: health_check_def)

section \<open>The export script\<close>



lemma touch_existing: "fs p = Some c \<Longrightarrow> touch p fs = fs"
  by (simp add: touch_def)









lemma script_runs_main:
  "script True main_export w = (0, main main_export w)"
  "script False main_export w = (1, w)"
  by (simp_all add: script_def)






end
